theory Spec2Isabelle
  imports Main "HOL-Library.Char_ord" "HOL-Library.List_Lexorder"
begin

unbundle bit_operations_syntax

section \<open>The ticket ledger of andi.py\<close>

text \<open>
  The three source files carry the same ledger core (classes \<^verbatim>\<open>TicketTransaction\<close>,
  \<^verbatim>\<open>Block\<close>, \<^verbatim>\<open>TicketBlockchain\<close>); the line numbers below are those of andi.py.
  The core calls three library functions, which are modelled here once:
  \<^verbatim>\<open>hashlib.sha256(..).hexdigest()\<close> (SHA-256 as in FIPS 180-4),
  \<^verbatim>\<open>json.dumps(.., sort_keys=True)\<close>, and \<^verbatim>\<open>str.startswith\<close>.
  The two sources of outside input, \<^verbatim>\<open>time.time()\<close> and \<^verbatim>\<open>uuid.uuid4()\<close>, become
  arguments of the operations that call them.
\<close>

subsection \<open>SHA-256 on Python integers\<close>

text \<open>
  Words are integers in \<open>[0, 2^32)\<close>; addition wraps with \<open>mod 2^32\<close> written out.
\<close>

type_synonym u32 = int
type_synonym vars = "u32 \<times> u32 \<times> u32 \<times> u32 \<times> u32 \<times> u32 \<times> u32 \<times> u32"

definition add32 :: "u32 \<Rightarrow> u32 \<Rightarrow> u32" where
  "add32 x y = (x + y) mod 4294967296"

definition rotr :: "nat \<Rightarrow> u32 \<Rightarrow> u32" where
  "rotr n w = drop_bit n w OR take_bit 32 (push_bit (32 - n) w)"

definition ch :: "u32 \<Rightarrow> u32 \<Rightarrow> u32 \<Rightarrow> u32" where
  "ch x y z = (x AND y) XOR ((x XOR 4294967295) AND z)"

definition maj :: "u32 \<Rightarrow> u32 \<Rightarrow> u32 \<Rightarrow> u32" where
  "maj x y z = (x AND y) XOR (x AND z) XOR (y AND z)"

definition bsig0 :: "u32 \<Rightarrow> u32" where
  "bsig0 x = rotr 2 x XOR rotr 13 x XOR rotr 22 x"

definition bsig1 :: "u32 \<Rightarrow> u32" where
  "bsig1 x = rotr 6 x XOR rotr 11 x XOR rotr 25 x"

definition ssig0 :: "u32 \<Rightarrow> u32" where
  "ssig0 x = rotr 7 x XOR rotr 18 x XOR drop_bit 3 x"

definition ssig1 :: "u32 \<Rightarrow> u32" where
  "ssig1 x = rotr 17 x XOR rotr 19 x XOR drop_bit 10 x"

text \<open>The round constants and the initial hash value, in decimal.\<close>

definition sha256_k :: "u32 list" where
  "sha256_k =
    [1116352408, 1899447441, 3049323471, 3921009573, 961987163, 1508970993,
     2453635748, 2870763221, 3624381080, 310598401, 607225278, 1426881987,
     1925078388, 2162078206, 2614888103, 3248222580, 3835390401, 4022224774,
     264347078, 604807628, 770255983, 1249150122, 1555081692, 1996064986,
     2554220882, 2821834349, 2952996808, 3210313671, 3336571891, 3584528711,
     113926993, 338241895, 666307205, 773529912, 1294757372, 1396182291,
     1695183700, 1986661051, 2177026350, 2456956037, 2730485921, 2820302411,
     3259730800, 3345764771, 3516065817, 3600352804, 4094571909, 275423344,
     430227734, 506948616, 659060556, 883997877, 958139571, 1322822218,
     1537002063, 1747873779, 1955562222, 2024104815, 2227730452, 2361852424,
     2428436474, 2756734187, 3204031479, 3329325298]"

definition sha256_h0 :: vars where
  "sha256_h0 = (1779033703, 3144134277, 1013904242, 2773480762,
                1359893119, 2600822924, 528734635, 1541459225)"

text \<open>
  The message schedule is kept as a window of the last sixteen words: \<open>next_w\<close> drops the
  oldest word and appends \<open>W\<^sub>t = \<sigma>\<^sub>1(W\<^sub>t\<^sub>-\<^sub>2) + W\<^sub>t\<^sub>-\<^sub>7 + \<sigma>\<^sub>0(W\<^sub>t\<^sub>-\<^sub>1\<^sub>5) + W\<^sub>t\<^sub>-\<^sub>1\<^sub>6\<close>.
\<close>

definition next_w :: "u32 list \<Rightarrow> u32 list" where
  "next_w ws =
     tl ws @ [add32 (add32 (add32 (ssig1 (ws ! 14)) (ws ! 9)) (ssig0 (ws ! 1))) (ws ! 0)]"

fun mix :: "u32 \<Rightarrow> u32 \<Rightarrow> vars \<Rightarrow> vars" where
  "mix t1 t2 (a, b, c, d, e, f, g, h) = (add32 t1 t2, a, b, c, add32 d t1, e, f, g)"

fun round :: "u32 \<Rightarrow> u32 \<Rightarrow> vars \<Rightarrow> vars" where
  "round k w (a, b, c, d, e, f, g, h) =
     mix (add32 (add32 (add32 (add32 h (bsig1 e)) (ch e f g)) k) w)
         (add32 (bsig0 a) (maj a b c))
         (a, b, c, d, e, f, g, h)"

fun rounds :: "u32 list \<Rightarrow> u32 list \<Rightarrow> vars \<Rightarrow> vars" where
  "rounds [] ws st = st"
| "rounds (k # ks) ws st = rounds ks (next_w ws) (round k (hd ws) st)"

fun add_vars :: "vars \<Rightarrow> vars \<Rightarrow> vars" where
  "add_vars (h0, h1, h2, h3, h4, h5, h6, h7) (a, b, c, d, e, f, g, h) =
     (add32 h0 a, add32 h1 b, add32 h2 c, add32 h3 d,
      add32 h4 e, add32 h5 f, add32 h6 g, add32 h7 h)"

definition compress :: "vars \<Rightarrow> u32 list \<Rightarrow> vars" where
  "compress hs ws = add_vars hs (rounds sha256_k ws hs)"

text \<open>Bytes to big-endian words; padding to a multiple of 64 bytes with the bit length.\<close>

fun be_words :: "int list \<Rightarrow> u32 list" where
  "be_words (b0 # b1 # b2 # b3 # bs) =
     (((b0 * 256 + b1) * 256 + b2) * 256 + b3) # be_words bs"
| "be_words bs = []"

definition len64 :: "int \<Rightarrow> int list" where
  "len64 n = [n div 2 ^ 56 mod 256, n div 2 ^ 48 mod 256, n div 2 ^ 40 mod 256,
              n div 2 ^ 32 mod 256, n div 2 ^ 24 mod 256, n div 2 ^ 16 mod 256,
              n div 2 ^ 8 mod 256, n mod 256]"

definition pad :: "int list \<Rightarrow> int list" where
  "pad bs = bs @ [128] @ replicate ((119 - length bs mod 64) mod 64) 0
               @ len64 (8 * int (length bs))"

function chunks :: "vars \<Rightarrow> u32 list \<Rightarrow> vars" where
  "chunks hs ws = (if length ws < 16 then hs
                   else chunks (compress hs (take 16 ws)) (drop 16 ws))"
  by pat_completeness auto
termination
  by (relation "measure (\<lambda>(hs, ws). length ws)") auto

declare chunks.simps [simp del]

definition hex_digit :: "int \<Rightarrow> char" where
  "hex_digit d = ''0123456789abcdef'' ! nat d"

definition hex32 :: "u32 \<Rightarrow> string" where
  "hex32 w = [hex_digit (w div 16 ^ 7 mod 16), hex_digit (w div 16 ^ 6 mod 16),
              hex_digit (w div 16 ^ 5 mod 16), hex_digit (w div 16 ^ 4 mod 16),
              hex_digit (w div 16 ^ 3 mod 16), hex_digit (w div 16 ^ 2 mod 16),
              hex_digit (w div 16 mod 16), hex_digit (w mod 16)]"

fun hex_vars :: "vars \<Rightarrow> string" where
  "hex_vars (a, b, c, d, e, f, g, h) = concat (map hex32 [a, b, c, d, e, f, g, h])"

text \<open>\<^verbatim>\<open>hashlib.sha256(data).hexdigest()\<close>: 64 lower-case hexadecimal characters.\<close>

definition sha256_hexdigest :: "string \<Rightarrow> string" where
  "sha256_hexdigest s = hex_vars (chunks sha256_h0 (be_words (pad (map of_char s))))"

subsection \<open>JSON values and \<^verbatim>\<open>json.dumps(.., sort_keys=True)\<close>\<close>

text \<open>
  The values the ledger serializes. A Python string is modelled by a \<^typ>\<open>string\<close>, one
  character per code point below 256. A float is carried as the text that
  \<^verbatim>\<open>float.__repr__\<close> gives for it, which is what \<^verbatim>\<open>json.dumps\<close> emits for a finite float; two
  finite floats are equal exactly when these texts are. Dictionaries have string keys and are
  kept in insertion order as association lists.
\<close>

datatype json =
    JNull
  | JBool bool
  | JInt int
  | JFloat string
  | JStr string
  | JList "json list"
  | JDict "(string \<times> json) list"

function digits :: "int \<Rightarrow> string" where
  "digits n = (if n < 10 then [''0123456789'' ! nat n]
               else digits (n div 10) @ [''0123456789'' ! nat (n mod 10)])"
  by pat_completeness auto
termination
  by (relation "measure nat") auto

declare digits.simps [simp del]

text \<open>\<^verbatim>\<open>int.__repr__\<close>, the text of a Python integer.\<close>

definition int_str :: "int \<Rightarrow> string" where
  "int_str n = (if n < 0 then CHR ''-'' # digits (- n) else digits n)"

text \<open>
  One character of \<^verbatim>\<open>json.encoder.py_encode_basestring_ascii\<close> (\<^verbatim>\<open>ensure_ascii\<close> is on by
  default): the quote and the backslash get a backslash, the five short escapes are used,
  every other character outside \<^verbatim>\<open>' '..'~'\<close> becomes \<^verbatim>\<open>\u00XX\<close>.
\<close>

definition esc_char :: "char \<Rightarrow> string" where
  "esc_char c =
     (if c = CHR 0x22 then [CHR 0x5C, CHR 0x22]
      else if c = CHR 0x5C then [CHR 0x5C, CHR 0x5C]
      else if c = CHR 0x08 then [CHR 0x5C, CHR ''b'']
      else if c = CHR 0x0C then [CHR 0x5C, CHR ''f'']
      else if c = CHR 0x0A then [CHR 0x5C, CHR ''n'']
      else if c = CHR 0x0D then [CHR 0x5C, CHR ''r'']
      else if c = CHR 0x09 then [CHR 0x5C, CHR ''t'']
      else if (of_char c :: int) < 32 \<or> 126 < (of_char c :: int)
        then [CHR 0x5C, CHR ''u'', CHR ''0'', CHR ''0'',
              hex_digit (of_char c div 16), hex_digit (of_char c mod 16)]
      else [c])"

definition quote :: "string \<Rightarrow> string" where
  "quote s = CHR 0x22 # concat (map esc_char s) @ [CHR 0x22]"

fun join :: "string \<Rightarrow> string list \<Rightarrow> string" where
  "join sep [] = []"
| "join sep [x] = x"
| "join sep (x # y # ys) = x @ sep @ join sep (y # ys)"

definition item :: "string \<times> string \<Rightarrow> string" where
  "item kv = quote (fst kv) @ '': '' @ snd kv"

text \<open>
  \<^verbatim>\<open>json.dumps(v, sort_keys=True)\<close> with the default separators \<^verbatim>\<open>', '\<close> and \<^verbatim>\<open>': '\<close>. A
  dictionary's items are sorted by key (Python compares strings by code point); a list keeps
  its order.
\<close>

primrec dumps :: "json \<Rightarrow> string" where
  "dumps JNull = ''null''"
| "dumps (JBool b) = (if b then ''true'' else ''false'')"
| "dumps (JInt n) = int_str n"
| "dumps (JFloat r) = r"
| "dumps (JStr s) = quote s"
| "dumps (JList xs) = ''['' @ join '', '' (map dumps xs) @ '']''"
| "dumps (JDict kvs) =
     ''{'' @ join '', '' (map item (sort_key fst (map (map_prod id dumps) kvs))) @ ''}''"

subsection \<open>Transactions and blocks (andi.py, lines 8 to 34)\<close>

text \<open>
  \<^verbatim>\<open>TicketTransaction.__init__\<close> stores its five arguments and \<^verbatim>\<open>time.time()\<close>; the defaults
  \<^verbatim>\<open>event=None\<close> and \<^verbatim>\<open>new_owner=None\<close> are \<open>JNull\<close> and \<open>None\<close>. Owners and ticket ids are
  strings, the event is any JSON value (a string in andi.py and 69.py, a dictionary in
  apple.py).
\<close>

record transaction =
  tx_type :: string
  ticket_id :: string
  tx_owner :: string
  tx_event :: json
  new_owner :: "string option"
  tx_timestamp :: string

definition TicketTransaction ::
  "string \<Rightarrow> string \<Rightarrow> string \<Rightarrow> json \<Rightarrow> string option \<Rightarrow> string \<Rightarrow> transaction" where
  "TicketTransaction ty tid own ev new_own now =
     \<lparr>tx_type = ty, ticket_id = tid, tx_owner = own, tx_event = ev,
      new_owner = new_own, tx_timestamp = now\<rparr>"

text \<open>\<^verbatim>\<open>to_dict\<close> returns \<^verbatim>\<open>self.__dict__\<close>: all six attributes, in the order they were set.\<close>

definition to_dict :: "transaction \<Rightarrow> json" where
  "to_dict tx =
     JDict [(''tx_type'', JStr (tx_type tx)),
            (''ticket_id'', JStr (ticket_id tx)),
            (''owner'', JStr (tx_owner tx)),
            (''event'', tx_event tx),
            (''new_owner'', (case new_owner tx of None \<Rightarrow> JNull | Some n \<Rightarrow> JStr n)),
            (''timestamp'', JFloat (tx_timestamp tx))]"

text \<open>
  A block. The attribute \<^verbatim>\<open>hash\<close> is not set by \<^verbatim>\<open>Block.__init__\<close>; it is assigned by the
  ledger, so it is optional here.
\<close>

record block =
  index :: int
  transactions :: "transaction list"
  timestamp :: string
  previous_hash :: string
  nonce :: int
  hash :: "string option"

definition Block :: "int \<Rightarrow> transaction list \<Rightarrow> string \<Rightarrow> string \<Rightarrow> block" where
  "Block i txs prev now =
     \<lparr>index = i, transactions = txs, timestamp = now, previous_hash = prev,
      nonce = 0, hash = None\<rparr>"

definition block_dict :: "block \<Rightarrow> json" where
  "block_dict b =
     JDict [(''index'', JInt (index b)),
            (''transactions'', JList (map to_dict (transactions b))),
            (''timestamp'', JFloat (timestamp b)),
            (''previous_hash'', JStr (previous_hash b)),
            (''nonce'', JInt (nonce b))]"

definition block_string :: "block \<Rightarrow> string" where
  "block_string b = dumps (block_dict b)"

definition compute_hash :: "block \<Rightarrow> string" where
  "compute_hash b = sha256_hexdigest (block_string b)"

subsection \<open>The ledger (andi.py, lines 36 to 87)\<close>

record ticket =
  owner :: string
  status :: string
  event :: json

record blockchain =
  chain :: "block list"
  pending_transactions :: "transaction list"
  tickets :: "string \<rightharpoonup> ticket"

datatype error = IndexError

definition difficulty :: nat where
  "difficulty = 2"

definition startswith :: "string \<Rightarrow> string \<Rightarrow> bool" where
  "startswith s p = (take (length p) s = p)"

definition create_genesis_block :: "blockchain \<Rightarrow> string \<Rightarrow> blockchain" where
  "create_genesis_block s now =
     (let genesis_block = Block 0 [] ''0'' now
      in s\<lparr>chain := chain s @ [genesis_block\<lparr>hash := Some (compute_hash genesis_block)\<rparr>]\<rparr>)"

text \<open>\<^verbatim>\<open>TicketBlockchain()\<close>; \<open>now\<close> is the creation time of the genesis block.\<close>

definition TicketBlockchain :: "string \<Rightarrow> blockchain" where
  "TicketBlockchain now =
     create_genesis_block \<lparr>chain = [], pending_transactions = [], tickets = Map.empty\<rparr> now"

definition add_transaction :: "blockchain \<Rightarrow> transaction \<Rightarrow> blockchain" where
  "add_transaction s tx = s\<lparr>pending_transactions := pending_transactions s @ [tx]\<rparr>"

text \<open>
  The loop of \<^verbatim>\<open>proof_of_work\<close>, on its two variables \<^verbatim>\<open>block\<close> (of which it changes the
  nonce) and \<^verbatim>\<open>computed_hash\<close>. It has no bound, so not returning is the value \<open>None\<close>.
\<close>

partial_function (option) pow_loop :: "block \<Rightarrow> string \<Rightarrow> (block \<times> string) option" where
  "pow_loop b computed_hash =
     (if startswith computed_hash (replicate difficulty CHR ''0'')
      then Some (b, computed_hash)
      else pow_loop (b\<lparr>nonce := nonce b + 1\<rparr>) (compute_hash (b\<lparr>nonce := nonce b + 1\<rparr>)))"

text \<open>\<^verbatim>\<open>proof_of_work\<close> returns the hash and leaves the block with the nonce it found.\<close>

definition proof_of_work :: "block \<Rightarrow> (block \<times> string) option" where
  "proof_of_work b = pow_loop (b\<lparr>nonce := 0\<rparr>) (compute_hash (b\<lparr>nonce := 0\<rparr>))"

text \<open>
  \<^verbatim>\<open>mine\<close>: \<open>None\<close> when the search does not return, \<open>Inl IndexError\<close> for \<^verbatim>\<open>self.chain[-1]\<close> on
  an empty chain, otherwise the new ledger and the returned value (\<^verbatim>\<open>None\<close> or the block).
\<close>

definition mine :: "blockchain \<Rightarrow> string \<Rightarrow> (error + blockchain \<times> block option) option" where
  "mine s now =
     (if pending_transactions s = [] then Some (Inr (s, None))
      else if chain s = [] then Some (Inl IndexError)
      else
        (case proof_of_work
                (Block (int (length (chain s))) (pending_transactions s)
                       (compute_hash (last (chain s))) now) of
           None \<Rightarrow> None
         | Some (new_block, h) \<Rightarrow>
             Some (Inr (s\<lparr>chain := chain s @ [new_block\<lparr>hash := Some h\<rparr>],
                          pending_transactions := []\<rparr>,
                        Some (new_block\<lparr>hash := Some h\<rparr>)))))"

text \<open>\<open>uuid\<close> is the text of \<^verbatim>\<open>uuid.uuid4()\<close>; the operation returns it.\<close>

definition issue_ticket ::
  "blockchain \<Rightarrow> string \<Rightarrow> json \<Rightarrow> string \<Rightarrow> string \<Rightarrow> blockchain \<times> string" where
  "issue_ticket s own ev uuid now =
     (let tx = TicketTransaction ''issue'' uuid own ev None now;
          s1 = add_transaction s tx
      in (s1\<lparr>tickets := (tickets s1)(uuid \<mapsto> \<lparr>owner = own, status = ''valid'', event = ev\<rparr>)\<rparr>,
          uuid))"

definition transfer_ticket ::
  "blockchain \<Rightarrow> string \<Rightarrow> string \<Rightarrow> string \<Rightarrow> blockchain \<times> bool" where
  "transfer_ticket s tid new_own now =
     (case tickets s tid of
        None \<Rightarrow> (s, False)
      | Some t \<Rightarrow>
          if status t \<noteq> ''valid'' then (s, False)
          else
            (let tx = TicketTransaction ''transfer'' tid (owner t) JNull (Some new_own) now;
                 s1 = add_transaction s tx
             in (s1\<lparr>tickets := (tickets s1)(tid \<mapsto> t\<lparr>owner := new_own\<rparr>)\<rparr>, True)))"

definition redeem_ticket :: "blockchain \<Rightarrow> string \<Rightarrow> string \<Rightarrow> blockchain \<times> bool" where
  "redeem_ticket s tid now =
     (case tickets s tid of
        None \<Rightarrow> (s, False)
      | Some t \<Rightarrow>
          if status t \<noteq> ''valid'' then (s, False)
          else
            (let tx = TicketTransaction ''redeem'' tid (owner t) JNull None now;
                 s1 = add_transaction s tx
             in (s1\<lparr>tickets := (tickets s1)(tid \<mapsto> t\<lparr>status := ''redeemed''\<rparr>)\<rparr>, True)))"

definition verify_ticket :: "blockchain \<Rightarrow> string \<Rightarrow> ticket option" where
  "verify_ticket s tid = tickets s tid"

subsection \<open>Callers\<close>

text \<open>
  A caller (the page scripts of the three files) is a sequence of calls on one ledger. Each
  call carries what the clock and the uuid generator return during it. \<open>run\<close> is \<open>None\<close>
  when a call does not return normally.
\<close>

datatype call =
    Issue string json string string
  | Transfer string string string
  | Redeem string string
  | Verify string
  | Mine string

fun exec :: "blockchain \<Rightarrow> call \<Rightarrow> blockchain option" where
  "exec s (Issue own ev uuid now) = Some (fst (issue_ticket s own ev uuid now))"
| "exec s (Transfer tid new_own now) = Some (fst (transfer_ticket s tid new_own now))"
| "exec s (Redeem tid now) = Some (fst (redeem_ticket s tid now))"
| "exec s (Verify tid) = Some s"
| "exec s (Mine now) =
     (case mine s now of Some (Inr (s', r)) \<Rightarrow> Some s' | _ \<Rightarrow> None)"

fun run :: "blockchain \<Rightarrow> call list \<Rightarrow> blockchain option" where
  "run s [] = Some s"
| "run s (c # cs) = (case exec s c of None \<Rightarrow> None | Some s' \<Rightarrow> run s' cs)"

text \<open>The ids that the uuid generator hands out during a sequence of calls.\<close>

fun issued_ids :: "call list \<Rightarrow> string list" where
  "issued_ids [] = []"
| "issued_ids (Issue own ev uuid now # cs) = uuid # issued_ids cs"
| "issued_ids (c # cs) = issued_ids cs"

subsection \<open>Properties of a chain\<close>

definition zeros :: string where
  "zeros = replicate difficulty CHR ''0''"

definition sealed_ok :: "block \<Rightarrow> bool" where
  "sealed_ok b = (hash b = Some (compute_hash b))"

definition mined_ok :: "block \<Rightarrow> bool" where
  "mined_ok b = startswith (compute_hash b) zeros"

fun linked :: "block list \<Rightarrow> bool" where
  "linked (a # b # bs) = (hash a = Some (previous_hash b) \<and> linked (b # bs))"
| "linked bs = True"

definition ledger_inv :: "blockchain \<Rightarrow> bool" where
  "ledger_inv s =
     (chain s \<noteq> [] \<and> list_all sealed_ok (chain s) \<and> list_all mined_ok (tl (chain s))
      \<and> linked (chain s))"

subsection \<open>An example session\<close>

text \<open>
  A ledger created at time 1700000000.0, one ticket issued to Alice at 1700000001.5, and a
  block mined at 1700000057.75. The hashes are those that SHA-256 gives for the three
  serializations; the search for the second block fails at nonce 0 and stops at nonce 1.
\<close>

definition demo_uuid :: string where
  "demo_uuid = ''3f2b8c1e-5d4a-4e6f-9a7b-1c2d3e4f5a6b''"

definition demo_ledger :: blockchain where
  "demo_ledger = TicketBlockchain ''1700000000.0''"

definition demo_issued :: blockchain where
  "demo_issued =
     fst (issue_ticket demo_ledger ''Alice'' (JStr ''Concert A'') demo_uuid ''1700000001.5'')"

definition demo_calls :: "call list" where
  "demo_calls =
     [Issue ''Alice'' (JStr ''Concert A'') demo_uuid ''1700000001.5'', Mine ''1700000057.75'']"

definition demo_genesis_hash :: string where
  "demo_genesis_hash = ''50d82b0d66572ea697cec74d73a843c77a715d6b2384ac18ed0e15346d603cb6''"

definition demo_block_hash :: string where
  "demo_block_hash = ''0081807d9487746f868c9ccab9fc52d980946420e37b1d20e303ff2af983b43e''"

definition demo_tx :: transaction where
  "demo_tx =
     \<lparr>tx_type = ''issue'', ticket_id = demo_uuid, tx_owner = ''Alice'',
      tx_event = JStr ''Concert A'', new_owner = None, tx_timestamp = ''1700000001.5''\<rparr>"

definition demo_genesis_block :: block where
  "demo_genesis_block =
     \<lparr>index = 0, transactions = [], timestamp = ''1700000000.0'', previous_hash = ''0'',
      nonce = 0, hash = Some demo_genesis_hash\<rparr>"

definition demo_unsealed :: block where
  "demo_unsealed = Block 1 [demo_tx] demo_genesis_hash ''1700000057.75''"

definition demo_sealed_block :: block where
  "demo_sealed_block =
     \<lparr>index = 1, transactions = [demo_tx], timestamp = ''1700000057.75'',
      previous_hash = demo_genesis_hash, nonce = 1, hash = Some demo_block_hash\<rparr>"

definition demo_mined :: blockchain where
  "demo_mined =
     \<lparr>chain = [demo_genesis_block, demo_sealed_block], pending_transactions = [],
      tickets = [demo_uuid \<mapsto> \<lparr>owner = ''Alice'', status = ''valid'', event = JStr ''Concert A''\<rparr>]\<rparr>"

text \<open>Instead of mining, the ticket is redeemed; three more calls follow.\<close>

definition demo_redeemed :: blockchain where
  "demo_redeemed = fst (redeem_ticket demo_issued demo_uuid ''1700000003.0'')"

definition demo_later_calls :: "call list" where
  "demo_later_calls =
     [Transfer demo_uuid ''Bob'' ''1700000004.0'',
      Issue ''Carol'' (JStr ''Concert B'') ''9c0d1e2f-3a4b-4c5d-8e6f-7a8b9c0d1e2f'' ''1700000005.0'',
      Redeem demo_uuid ''1700000006.0'']"

definition demo_later :: blockchain where
  "demo_later =
     fst (issue_ticket demo_redeemed ''Carol'' (JStr ''Concert B'')
            ''9c0d1e2f-3a4b-4c5d-8e6f-7a8b9c0d1e2f'' ''1700000005.0'')"

section \<open>The proof-of-work search\<close>

lemma compute_hash_hash_update [simp]: "compute_hash (b\<lparr>hash := x\<rparr>) = compute_hash b"
  by (simp add: compute_hash_def block_string_def block_dict_def)

text \<open>
  If the nonce \<open>k\<close> steps ahead passes the test and none before it does, the loop stops
  there.
\<close>

lemma pow_loop_search:
  "mined_ok (b\<lparr>nonce := nonce b + int k\<rparr>) \<Longrightarrow>
   (\<forall>j<k. \<not> mined_ok (b\<lparr>nonce := nonce b + int j\<rparr>)) \<Longrightarrow>
   pow_loop b (compute_hash b) =
     Some (b\<lparr>nonce := nonce b + int k\<rparr>, compute_hash (b\<lparr>nonce := nonce b + int k\<rparr>))"
proof (induction k arbitrary: b)
  case 0
  then show ?case
    by (subst pow_loop.simps) (simp add: mined_ok_def zeros_def)
next
  case (Suc k)
  let ?b = "b\<lparr>nonce := nonce b + 1\<rparr>"
  from Suc.prems(2) have nb: "\<not> mined_ok b"
    by (metis add.right_neutral of_nat_0 zero_less_Suc block.surjective block.update_convs(5))
  have a: "mined_ok (?b\<lparr>nonce := nonce ?b + int k\<rparr>)"
    using Suc.prems(1) by (simp add: add.assoc)
  have b: "\<forall>j<k. \<not> mined_ok (?b\<lparr>nonce := nonce ?b + int j\<rparr>)"
  proof (intro allI impI)
    fix j assume "j < k"
    then have "Suc j < Suc k" by simp
    with Suc.prems(2) have "\<not> mined_ok (b\<lparr>nonce := nonce b + int (Suc j)\<rparr>)"
      by blast
    then show "\<not> mined_ok (?b\<lparr>nonce := nonce ?b + int j\<rparr>)"
      by (simp add: add.assoc)
  qed
  from Suc.IH [OF a b] nb show ?case
    by (subst pow_loop.simps) (simp add: mined_ok_def zeros_def add.assoc)
qed

text \<open>Whatever the loop returns is the block with some nonce, its hash, and passes the test.\<close>

lemma pow_loop_sound_aux:
  assumes "pow_loop b h = Some r"
  shows "h = compute_hash b \<longrightarrow>
     snd r = compute_hash (fst r) \<and> mined_ok (fst r) \<and> (\<exists>n. fst r = b\<lparr>nonce := n\<rparr>)"
  using assms
proof (induct b h r rule: pow_loop.raw_induct [rotated 1, consumes 1])
  case (1 pow_loop b h r)
  show ?case
  proof (cases "startswith h (replicate difficulty CHR ''0'')")
    case True
    have "b = b\<lparr>nonce := nonce b\<rparr>" by simp
    then have "\<exists>n. b = b\<lparr>nonce := n\<rparr>" by blast
    moreover from True 1(2) have "r = (b, h)" by simp
    moreover have "h = compute_hash b \<Longrightarrow> mined_ok b"
      using True by (simp add: mined_ok_def zeros_def)
    ultimately show ?thesis by simp
  next
    case False
    with 1(2) have "pow_loop (b\<lparr>nonce := nonce b + 1\<rparr>)
                      (compute_hash (b\<lparr>nonce := nonce b + 1\<rparr>)) = Some r"
      by simp
    from 1(1) [OF this] show ?thesis by auto
  qed
qed

lemma proof_of_work_sound:
  assumes "proof_of_work b = Some (b', h')"
  shows "h' = compute_hash b' \<and> mined_ok b' \<and> (\<exists>n. b' = b\<lparr>nonce := n\<rparr>)"
proof -
  from assms have "pow_loop (b\<lparr>nonce := 0\<rparr>) (compute_hash (b\<lparr>nonce := 0\<rparr>)) = Some (b', h')"
    by (simp add: proof_of_work_def)
  from pow_loop_sound_aux [OF this] show ?thesis by auto
qed

lemma proof_of_work_least:
  assumes "\<exists>n\<ge>0. mined_ok (b\<lparr>nonce := n\<rparr>)"
  shows "\<exists>n\<ge>0. proof_of_work b = Some (b\<lparr>nonce := n\<rparr>, compute_hash (b\<lparr>nonce := n\<rparr>))
           \<and> mined_ok (b\<lparr>nonce := n\<rparr>)
           \<and> (\<forall>m. 0 \<le> m \<and> m < n \<longrightarrow> \<not> mined_ok (b\<lparr>nonce := m\<rparr>))"
proof -
  define Q where "Q k = mined_ok (b\<lparr>nonce := int k\<rparr>)" for k
  from assms obtain n0 where "0 \<le> n0" and "mined_ok (b\<lparr>nonce := n0\<rparr>)" by blast
  then have "Q (nat n0)" by (simp add: Q_def)
  define k where "k = (LEAST k. Q k)"
  have Qk: "Q k" unfolding k_def using \<open>Q (nat n0)\<close> by (rule LeastI)
  have least: "\<not> Q j" if "j < k" for j
    using that not_less_Least unfolding k_def by blast
  let ?b0 = "b\<lparr>nonce := 0\<rparr>"
  have upd: "?b0\<lparr>nonce := nonce ?b0 + int j\<rparr> = b\<lparr>nonce := int j\<rparr>" for j by simp
  have "pow_loop ?b0 (compute_hash ?b0) =
          Some (?b0\<lparr>nonce := nonce ?b0 + int k\<rparr>, compute_hash (?b0\<lparr>nonce := nonce ?b0 + int k\<rparr>))"
  proof (rule pow_loop_search)
    show "mined_ok (?b0\<lparr>nonce := nonce ?b0 + int k\<rparr>)"
      using Qk unfolding upd Q_def .
    show "\<forall>j<k. \<not> mined_ok (?b0\<lparr>nonce := nonce ?b0 + int j\<rparr>)"
      using least unfolding upd Q_def by blast
  qed
  then have pw: "proof_of_work b = Some (b\<lparr>nonce := int k\<rparr>, compute_hash (b\<lparr>nonce := int k\<rparr>))"
    unfolding upd proof_of_work_def .
  have below: "\<not> mined_ok (b\<lparr>nonce := m\<rparr>)" if "0 \<le> m" "m < int k" for m
  proof -
    from that have "nat m < k" by linarith
    then have "\<not> Q (nat m)" by (rule least)
    with that(1) show ?thesis by (simp add: Q_def)
  qed
  show ?thesis
  proof (intro exI [of _ "int k"] conjI allI impI)
    show "0 \<le> int k" by simp
    show "proof_of_work b = Some (b\<lparr>nonce := int k\<rparr>, compute_hash (b\<lparr>nonce := int k\<rparr>))"
      by (rule pw)
    show "mined_ok (b\<lparr>nonce := int k\<rparr>)"
      using Qk by (simp add: Q_def)
    fix m assume "0 \<le> m \<and> m < int k"
    then show "\<not> mined_ok (b\<lparr>nonce := m\<rparr>)"
      using below [of m] by simp
  qed
qed

section \<open>Invariants of the chain\<close>

lemma mined_ok_hash_update [simp]: "mined_ok (b\<lparr>hash := x\<rparr>) = mined_ok b"
  by (simp add: mined_ok_def)

lemma linked_append:
  "linked (xs @ [b]) = (linked xs \<and> (xs \<noteq> [] \<longrightarrow> hash (last xs) = Some (previous_hash b)))"
  by (induction xs rule: linked.induct) auto

lemma linked_nth:
  "linked xs \<Longrightarrow> 0 < i \<Longrightarrow> i < length xs \<Longrightarrow> hash (xs ! (i - 1)) = Some (previous_hash (xs ! i))"
proof (induction xs arbitrary: i rule: linked.induct)
  case (1 a b bs)
  show ?case
  proof (cases "i = 1")
    case True
    with 1(2) show ?thesis by simp
  next
    case False
    with 1(3) obtain j where i: "i = Suc j" and j: "0 < j" by (cases i) auto
    from 1(2) have "linked (b # bs)" by simp
    from 1(1) [OF this j] 1(4) i j show ?thesis by (cases j) auto
  qed
qed auto

lemma ledger_inv_init: "ledger_inv (TicketBlockchain now)"
  by (simp add: ledger_inv_def TicketBlockchain_def create_genesis_block_def Let_def sealed_ok_def)

lemma chain_issue [simp]: "chain (fst (issue_ticket s own ev uuid now)) = chain s"
  by (simp add: issue_ticket_def add_transaction_def Let_def)

lemma chain_transfer [simp]: "chain (fst (transfer_ticket s tid new_own now)) = chain s"
  by (simp add: transfer_ticket_def add_transaction_def Let_def split: option.splits)

lemma chain_redeem [simp]: "chain (fst (redeem_ticket s tid now)) = chain s"
  by (simp add: redeem_ticket_def add_transaction_def Let_def split: option.splits)

lemma ledger_inv_mine:
  assumes inv: "ledger_inv s" and m: "mine s now = Some (Inr (s', r))"
  shows "ledger_inv s'"
proof (cases "pending_transactions s = []")
  case True
  with m have "s' = s" by (simp add: mine_def)
  with inv show ?thesis by simp
next
  case False
  from inv have ne: "chain s \<noteq> []" and sealed: "list_all sealed_ok (chain s)"
    and mined: "list_all mined_ok (tl (chain s))" and lk: "linked (chain s)"
    by (simp_all add: ledger_inv_def)
  let ?nb = "Block (int (length (chain s))) (pending_transactions s)
                   (compute_hash (last (chain s))) now"
  from m False ne obtain b h where pw: "proof_of_work ?nb = Some (b, h)"
    and s': "s' = s\<lparr>chain := chain s @ [b\<lparr>hash := Some h\<rparr>], pending_transactions := []\<rparr>"
    by (auto simp: mine_def split: option.splits)
  from proof_of_work_sound [OF pw] obtain n where h: "h = compute_hash b"
    and ok: "mined_ok b" and b: "b = ?nb\<lparr>nonce := n\<rparr>" by blast
  have prev: "previous_hash b = compute_hash (last (chain s))"
    by (simp add: b Block_def)
  from sealed ne have "sealed_ok (last (chain s))"
    by (simp add: list_all_iff)
  then have last: "hash (last (chain s)) = Some (previous_hash b)"
    by (simp add: sealed_ok_def prev)
  have tl: "tl (chain s @ [b\<lparr>hash := Some h\<rparr>]) = tl (chain s) @ [b\<lparr>hash := Some h\<rparr>]"
    using ne by simp
  show ?thesis
    unfolding ledger_inv_def s'
    using ne sealed mined lk ok last
    by (simp add: tl linked_append sealed_ok_def h)
qed

lemma ledger_inv_exec: "ledger_inv s \<Longrightarrow> exec s c = Some s' \<Longrightarrow> ledger_inv s'"
proof (cases c)
  case (Mine now)
  assume "ledger_inv s" "exec s c = Some s'"
  with Mine show ?thesis
    by (auto split: option.splits sum.splits dest: ledger_inv_mine)
qed (auto simp: ledger_inv_def)

lemma ledger_inv_run: "ledger_inv s \<Longrightarrow> run s cs = Some s' \<Longrightarrow> ledger_inv s'"
  by (induction cs arbitrary: s) (auto split: option.splits dest: ledger_inv_exec)


text \<open>Every ledger a caller can reach has its genesis block.\<close>

lemma reachable_chain_nonempty:
  "run (TicketBlockchain g) cs = Some s \<Longrightarrow> chain s \<noteq> []"
  using ledger_inv_run [OF ledger_inv_init] by (simp add: ledger_inv_def)

section \<open>Redeemed tickets stay redeemed\<close>

lemma tickets_mine: "mine s now = Some (Inr (s', r)) \<Longrightarrow> tickets s' = tickets s"
  by (auto simp: mine_def split: if_splits option.splits)

lemma redeemed_exec:
  assumes "tickets s tid = Some t" and "status t = ''redeemed''"
    and "exec s c = Some s'" and "tid \<notin> set (issued_ids [c])"
  shows "\<exists>t'. tickets s' tid = Some t' \<and> status t' = ''redeemed''"
  using assms
  by (cases c)
     (auto simp: issue_ticket_def transfer_ticket_def redeem_ticket_def add_transaction_def
                 Let_def split: option.splits sum.splits if_splits dest: tickets_mine)

lemma issued_ids_Cons: "set (issued_ids (c # cs)) = set (issued_ids [c]) \<union> set (issued_ids cs)"
  by (cases c) auto

lemma redeemed_run:
  "tickets s tid = Some t \<Longrightarrow> status t = ''redeemed'' \<Longrightarrow> run s cs = Some s' \<Longrightarrow>
   tid \<notin> set (issued_ids cs) \<Longrightarrow> \<exists>t'. tickets s' tid = Some t' \<and> status t' = ''redeemed''"
proof (induction cs arbitrary: s t)
  case Nil
  then show ?case by simp
next
  case (Cons c cs)
  from Cons.prems(3) obtain s1 where e: "exec s c = Some s1" and r: "run s1 cs = Some s'"
    by (auto split: option.splits)
  from Cons.prems(4) have n1: "tid \<notin> set (issued_ids [c])" and n2: "tid \<notin> set (issued_ids cs)"
    using issued_ids_Cons [of c cs] by auto
  from redeemed_exec [OF Cons.prems(1,2) e n1] obtain t1 where
    "tickets s1 tid = Some t1" "status t1 = ''redeemed''" by blast
  from Cons.IH [OF this r n2] show ?case .
qed


section \<open>A test vector for the digest\<close>

text \<open>The one-block message \<^verbatim>\<open>abc\<close> of FIPS 180-4, Appendix B.1.\<close>

lemma sha256_abc:
  "sha256_hexdigest ''abc''
   = ''ba7816bf8f01cfea414140de5dae2223b00361a396177a9cb410ff61f20015ad''"
  by code_simp

section \<open>The serialization, written out\<close>

lemma to_dict_string:
  \<open>dumps (to_dict tx) =
     ''{"event": '' @ dumps (tx_event tx)
     @ '', "new_owner": '' @ (case new_owner tx of None \<Rightarrow> ''null'' | Some n \<Rightarrow> quote n)
     @ '', "owner": '' @ quote (tx_owner tx)
     @ '', "ticket_id": '' @ quote (ticket_id tx)
     @ '', "timestamp": '' @ tx_timestamp tx
     @ '', "tx_type": '' @ quote (tx_type tx) @ ''}''\<close>
  by (simp add: to_dict_def item_def quote_def esc_char_def split: option.splits)

lemma block_string_form:
  \<open>block_string b =
     ''{"index": '' @ int_str (index b)
     @ '', "nonce": '' @ int_str (nonce b)
     @ '', "previous_hash": '' @ quote (previous_hash b)
     @ '', "timestamp": '' @ timestamp b
     @ '', "transactions": ['' @ join '', '' (map (\<lambda>tx. dumps (to_dict tx)) (transactions b))
     @ '']}''\<close>
  by (simp add: block_string_def block_dict_def item_def quote_def esc_char_def comp_def)

section \<open>The example session, evaluated\<close>

text \<open>The three digests are computed by rewriting with the definitions above.\<close>

lemmas demo_defs = demo_uuid_def demo_ledger_def demo_issued_def demo_calls_def
  demo_genesis_hash_def demo_block_hash_def demo_tx_def demo_genesis_block_def
  demo_unsealed_def demo_sealed_block_def demo_mined_def

lemma genesis_hash_none:
  "compute_hash \<lparr>index = 0, transactions = [], timestamp = ''1700000000.0'',
                  previous_hash = ''0'', nonce = 0, hash = None\<rparr>
   = ''50d82b0d66572ea697cec74d73a843c77a715d6b2384ac18ed0e15346d603cb6''"
  by code_simp

lemma block1_hash_nonce0_none:
  "compute_hash \<lparr>index = 1,
      transactions = [\<lparr>tx_type = ''issue'', ticket_id = ''3f2b8c1e-5d4a-4e6f-9a7b-1c2d3e4f5a6b'',
                       tx_owner = ''Alice'', tx_event = JStr ''Concert A'', new_owner = None,
                       tx_timestamp = ''1700000001.5''\<rparr>],
      timestamp = ''1700000057.75'',
      previous_hash = ''50d82b0d66572ea697cec74d73a843c77a715d6b2384ac18ed0e15346d603cb6'',
      nonce = 0, hash = None\<rparr>
   = ''1446711238a6978e1183d5237e43c66f9d6f1ca20fea2757df9514ed55744d17''"
  by code_simp

lemma block1_hash_nonce1_none:
  "compute_hash \<lparr>index = 1,
      transactions = [\<lparr>tx_type = ''issue'', ticket_id = ''3f2b8c1e-5d4a-4e6f-9a7b-1c2d3e4f5a6b'',
                       tx_owner = ''Alice'', tx_event = JStr ''Concert A'', new_owner = None,
                       tx_timestamp = ''1700000001.5''\<rparr>],
      timestamp = ''1700000057.75'',
      previous_hash = ''50d82b0d66572ea697cec74d73a843c77a715d6b2384ac18ed0e15346d603cb6'',
      nonce = 1, hash = None\<rparr>
   = ''0081807d9487746f868c9ccab9fc52d980946420e37b1d20e303ff2af983b43e''"
  by code_simp

lemma compute_hash_literal:
  "compute_hash \<lparr>index = i, transactions = txs, timestamp = ts, previous_hash = p,
                  nonce = n, hash = Some h\<rparr>
   = compute_hash \<lparr>index = i, transactions = txs, timestamp = ts, previous_hash = p,
                    nonce = n, hash = None\<rparr>"
  using compute_hash_hash_update
    [where b = "\<lparr>index = i, transactions = txs, timestamp = ts, previous_hash = p,
                 nonce = n, hash = None\<rparr>" and x = "Some h"]
  by simp

lemmas demo_hashes = compute_hash_literal genesis_hash_none block1_hash_nonce0_none
  block1_hash_nonce1_none

lemma demo_ledger_value:
  "demo_ledger = \<lparr>chain = [demo_genesis_block], pending_transactions = [], tickets = Map.empty\<rparr>"
  by (simp add: demo_defs TicketBlockchain_def create_genesis_block_def Block_def demo_hashes)

lemma demo_issued_value:
  "demo_issued = \<lparr>chain = [demo_genesis_block], pending_transactions = [demo_tx],
     tickets = [demo_uuid \<mapsto> \<lparr>owner = ''Alice'', status = ''valid'', event = JStr ''Concert A''\<rparr>]\<rparr>"
  unfolding demo_issued_def demo_ledger_value
  by (simp add: issue_ticket_def add_transaction_def TicketTransaction_def demo_tx_def)

lemma mined_ok_two_zeros:
  "mined_ok b = (take 2 (compute_hash b) = ''00'')"
  by (simp add: mined_ok_def zeros_def startswith_def difficulty_def numeral_2_eq_2)

lemma demo_nonce0: "\<not> mined_ok (demo_unsealed\<lparr>nonce := 0\<rparr>)"
  by (simp add: mined_ok_two_zeros demo_defs Block_def demo_hashes)

lemma demo_nonce1: "mined_ok (demo_unsealed\<lparr>nonce := 1\<rparr>)"
  by (simp add: mined_ok_two_zeros demo_defs Block_def demo_hashes)

lemma demo_nonce1_hash: "compute_hash (demo_unsealed\<lparr>nonce := 1\<rparr>) = demo_block_hash"
  by (simp add: demo_defs Block_def demo_hashes)

lemma demo_pow:
  "proof_of_work demo_unsealed = Some (demo_unsealed\<lparr>nonce := 1\<rparr>, demo_block_hash)"
proof -
  let ?b = "demo_unsealed\<lparr>nonce := 0\<rparr>"
  have a: "mined_ok (?b\<lparr>nonce := nonce ?b + int 1\<rparr>)"
    using demo_nonce1 by simp
  have b: "\<forall>j<1. \<not> mined_ok (?b\<lparr>nonce := nonce ?b + int j\<rparr>)"
    using demo_nonce0 by simp
  from pow_loop_search [OF a b] show ?thesis
    using demo_nonce1_hash by (simp add: proof_of_work_def)
qed

lemma demo_unsealed_mine:
  "Block (int (length (chain demo_issued))) (pending_transactions demo_issued)
         (compute_hash (last (chain demo_issued))) ''1700000057.75'' = demo_unsealed"
  unfolding demo_issued_value
  by (simp add: demo_unsealed_def demo_genesis_block_def demo_genesis_hash_def demo_hashes)

lemma demo_mine:
  "mine demo_issued ''1700000057.75'' = Some (Inr (demo_mined, Some demo_sealed_block))"
proof -
  have "pending_transactions demo_issued \<noteq> []" "chain demo_issued \<noteq> []"
    by (simp_all add: demo_issued_value)
  moreover have "demo_unsealed\<lparr>nonce := 1, hash := Some demo_block_hash\<rparr> = demo_sealed_block"
    by (simp add: demo_unsealed_def demo_sealed_block_def Block_def)
  moreover have "demo_issued\<lparr>chain := chain demo_issued @ [demo_sealed_block],
                             pending_transactions := []\<rparr> = demo_mined"
    by (simp add: demo_issued_value demo_mined_def)
  ultimately show ?thesis
    by (simp add: mine_def demo_unsealed_mine demo_pow)
qed

lemma demo_run: "run (TicketBlockchain ''1700000000.0'') demo_calls = Some demo_mined"
  using demo_mine by (simp add: demo_calls_def demo_issued_def [symmetric] demo_ledger_def [symmetric])

section \<open>The claims\<close>

subsection \<open>C1: sealed blocks\<close>

text \<open>
  C1, as amended. In every ledger reached from \<^verbatim>\<open>TicketBlockchain()\<close> by a sequence of calls,
  every block of the chain stores the hash that recomputing from its fields gives, and
  every block at an index above 0 has a hash that starts with \<open>difficulty\<close> zero characters.
  The genesis block is left out of the second part: \<^verbatim>\<open>create_genesis_block\<close> assigns
  \<^verbatim>\<open>compute_hash()\<close> without running \<^verbatim>\<open>proof_of_work\<close>.
\<close>

theorem chain_blocks_sealed:
  assumes "run (TicketBlockchain g) cs = Some s" and "i < length (chain s)"
  shows "hash (chain s ! i) = Some (compute_hash (chain s ! i))
         \<and> (0 < i \<longrightarrow> startswith (compute_hash (chain s ! i)) (replicate difficulty CHR ''0''))"
proof -
  from ledger_inv_run [OF ledger_inv_init assms(1)] have inv: "ledger_inv s" .
  then have "list_all sealed_ok (chain s)" by (simp add: ledger_inv_def)
  with assms(2) have a: "hash (chain s ! i) = Some (compute_hash (chain s ! i))"
    by (simp add: list_all_length sealed_ok_def)
  have b: "startswith (compute_hash (chain s ! i)) (replicate difficulty CHR ''0'')" if "0 < i"
  proof -
    from inv have "list_all mined_ok (tl (chain s))" by (simp add: ledger_inv_def)
    moreover from that assms(2) have "i - 1 < length (tl (chain s))" by simp
    ultimately have "mined_ok (tl (chain s) ! (i - 1))" by (simp add: list_all_length)
    with that assms(2) show ?thesis
      by (simp add: nth_tl mined_ok_def zeros_def)
  qed
  from a b show ?thesis by blast
qed

text \<open>The block mined in the example session, at index 1.\<close>

theorem chain_blocks_sealed_witness:
  "run (TicketBlockchain ''1700000000.0'') demo_calls = Some demo_mined
   \<and> 1 < length (chain demo_mined)
   \<and> hash (chain demo_mined ! 1) = Some (compute_hash (chain demo_mined ! 1))
   \<and> startswith (compute_hash (chain demo_mined ! 1)) (replicate difficulty CHR ''0'')"
proof -
  have len: "1 < length (chain demo_mined)" by (simp add: demo_mined_def)
  from chain_blocks_sealed [OF demo_run len] demo_run len show ?thesis by simp
qed

text \<open>
  C1 as stated fails at the genesis block of the ledger created at time 1700000000.0: its
  stored hash is the recomputed one, and it starts with \<^verbatim>\<open>50\<close>.
\<close>

theorem genesis_block_not_mined:
  "run (TicketBlockchain ''1700000000.0'') [] = Some demo_ledger
   \<and> chain demo_ledger ! 0 = demo_genesis_block
   \<and> hash demo_genesis_block = Some (compute_hash demo_genesis_block)
   \<and> compute_hash demo_genesis_block
       = ''50d82b0d66572ea697cec74d73a843c77a715d6b2384ac18ed0e15346d603cb6''
   \<and> \<not> startswith (compute_hash demo_genesis_block) (replicate difficulty CHR ''0'')"
proof -
  have h: "compute_hash demo_genesis_block
       = ''50d82b0d66572ea697cec74d73a843c77a715d6b2384ac18ed0e15346d603cb6''"
    by (simp add: demo_genesis_block_def demo_hashes)
  have "\<not> startswith (compute_hash demo_genesis_block) (replicate difficulty CHR ''0'')"
    unfolding h by (simp add: startswith_def difficulty_def numeral_2_eq_2)
  moreover have "hash demo_genesis_block = Some (compute_hash demo_genesis_block)"
    unfolding h by (simp add: demo_genesis_block_def demo_genesis_hash_def)
  moreover have "run (TicketBlockchain ''1700000000.0'') [] = Some demo_ledger"
    by (simp add: demo_ledger_def)
  moreover have "chain demo_ledger ! 0 = demo_genesis_block"
    by (simp add: demo_ledger_value)
  ultimately show ?thesis using h by blast
qed

subsection \<open>C2: chain linkage\<close>

text \<open>
  C2. In every ledger reached from \<^verbatim>\<open>TicketBlockchain()\<close> by a sequence of calls, for every
  index \<open>i > 0\<close> of the chain, \<^verbatim>\<open>chain[i].previous_hash\<close> is the hash stored on
  \<^verbatim>\<open>chain[i-1]\<close>. (\<^verbatim>\<open>mine\<close> recomputes the hash of the tip; by the invariant above the
  recomputed hash is the stored one.)
\<close>

theorem chain_linkage:
  assumes "run (TicketBlockchain g) cs = Some s" and "0 < i" and "i < length (chain s)"
  shows "hash (chain s ! (i - 1)) = Some (previous_hash (chain s ! i))"
proof -
  from ledger_inv_run [OF ledger_inv_init assms(1)] have "linked (chain s)"
    by (simp add: ledger_inv_def)
  then show ?thesis using assms(2,3) by (rule linked_nth)
qed

theorem chain_linkage_witness:
  "run (TicketBlockchain ''1700000000.0'') demo_calls = Some demo_mined
   \<and> (0 :: nat) < 1 \<and> 1 < length (chain demo_mined)
   \<and> hash (chain demo_mined ! (1 - 1)) = Some (previous_hash (chain demo_mined ! 1))
   \<and> previous_hash (chain demo_mined ! 1) = demo_genesis_hash"
proof -
  have pos: "(0 :: nat) < 1" by simp
  have len: "1 < length (chain demo_mined)" by (simp add: demo_mined_def)
  have "previous_hash (chain demo_mined ! 1) = demo_genesis_hash"
    by (simp add: demo_mined_def demo_sealed_block_def)
  with chain_linkage [OF demo_run pos len] demo_run pos len show ?thesis by blast
qed

subsection \<open>C3: mining a non-empty pool\<close>

text \<open>
  C3. With a non-empty pending pool (and a chain that has its genesis block), \<^verbatim>\<open>mine\<close>
  builds a block whose index is the length of the chain and whose transactions are the
  pending list as it is, appends it to the chain, empties the pending pool, changes nothing
  else, and returns that block. The search of \<^verbatim>\<open>proof_of_work\<close> has no bound, so that it
  returns is proved from the hypothesis that some nonce passes the test.
\<close>

theorem mine_seals_pending:
  assumes "pending_transactions s \<noteq> []" and "chain s \<noteq> []"
    and "\<exists>n\<ge>0. mined_ok ((Block (int (length (chain s))) (pending_transactions s)
                                (compute_hash (last (chain s))) now)\<lparr>nonce := n\<rparr>)"
  shows "\<exists>b. mine s now = Some (Inr (s\<lparr>chain := chain s @ [b], pending_transactions := []\<rparr>, Some b))
           \<and> index b = int (length (chain s))
           \<and> transactions b = pending_transactions s"
proof -
  let ?nb = "Block (int (length (chain s))) (pending_transactions s)
                   (compute_hash (last (chain s))) now"
  from proof_of_work_least [OF assms(3)] obtain n where
    pw: "proof_of_work ?nb = Some (?nb\<lparr>nonce := n\<rparr>, compute_hash (?nb\<lparr>nonce := n\<rparr>))" by blast
  let ?b = "?nb\<lparr>nonce := n, hash := Some (compute_hash (?nb\<lparr>nonce := n\<rparr>))\<rparr>"
  have "mine s now = Some (Inr (s\<lparr>chain := chain s @ [?b], pending_transactions := []\<rparr>, Some ?b))"
    using assms(1,2) pw by (simp add: mine_def)
  moreover have "index ?b = int (length (chain s))" by (simp add: Block_def)
  moreover have "transactions ?b = pending_transactions s" by (simp add: Block_def)
  ultimately show ?thesis by blast
qed

theorem mine_seals_pending_witness:
  "pending_transactions demo_issued \<noteq> [] \<and> chain demo_issued \<noteq> []
   \<and> mined_ok ((Block (int (length (chain demo_issued))) (pending_transactions demo_issued)
                  (compute_hash (last (chain demo_issued))) ''1700000057.75'')\<lparr>nonce := 1\<rparr>)
   \<and> (\<exists>b. mine demo_issued ''1700000057.75''
             = Some (Inr (demo_issued\<lparr>chain := chain demo_issued @ [b],
                                      pending_transactions := []\<rparr>, Some b))
           \<and> index b = int (length (chain demo_issued))
           \<and> transactions b = pending_transactions demo_issued)"
proof -
  have p: "pending_transactions demo_issued \<noteq> []" and c: "chain demo_issued \<noteq> []"
    by (simp_all add: demo_issued_value)
  have ok: "mined_ok ((Block (int (length (chain demo_issued))) (pending_transactions demo_issued)
                  (compute_hash (last (chain demo_issued))) ''1700000057.75'')\<lparr>nonce := 1\<rparr>)"
    unfolding demo_unsealed_mine by (rule demo_nonce1)
  then have ex: "\<exists>n\<ge>0. mined_ok ((Block (int (length (chain demo_issued)))
                  (pending_transactions demo_issued)
                  (compute_hash (last (chain demo_issued))) ''1700000057.75'')\<lparr>nonce := n\<rparr>)"
    by (intro exI [of _ 1]) simp
  from mine_seals_pending [OF p c ex] p c ok show ?thesis by blast
qed

subsection \<open>C4: unknown and invalid tickets\<close>

text \<open>
  C4. For a ticket id that is absent from the ticket index, or whose status is not
  \<^verbatim>\<open>"valid"\<close>, \<^verbatim>\<open>transfer_ticket\<close> and \<^verbatim>\<open>redeem_ticket\<close> return \<^verbatim>\<open>False\<close> and leave the
  whole ledger (ticket index, pending pool, chain) as it was.
\<close>

theorem invalid_ticket_rejected:
  assumes "tickets s tid = None \<or> (\<exists>t. tickets s tid = Some t \<and> status t \<noteq> ''valid'')"
  shows "transfer_ticket s tid new_own now = (s, False) \<and> redeem_ticket s tid now' = (s, False)"
  using assms by (auto simp: transfer_ticket_def redeem_ticket_def)

text \<open>An id that was never issued, and the redeemed ticket of the example session.\<close>

theorem invalid_ticket_rejected_witness:
  "tickets demo_ledger ''no-such-ticket'' = None
   \<and> transfer_ticket demo_ledger ''no-such-ticket'' ''Bob'' ''1700000002.0'' = (demo_ledger, False)
   \<and> redeem_ticket demo_ledger ''no-such-ticket'' ''1700000002.5'' = (demo_ledger, False)
   \<and> tickets demo_redeemed demo_uuid
       = Some \<lparr>owner = ''Alice'', status = ''redeemed'', event = JStr ''Concert A''\<rparr>
   \<and> transfer_ticket demo_redeemed demo_uuid ''Bob'' ''1700000004.0'' = (demo_redeemed, False)
   \<and> redeem_ticket demo_redeemed demo_uuid ''1700000006.0'' = (demo_redeemed, False)"
proof -
  have a: "tickets demo_ledger ''no-such-ticket'' = None"
    by (simp add: demo_ledger_value)
  have b: "tickets demo_redeemed demo_uuid
       = Some \<lparr>owner = ''Alice'', status = ''redeemed'', event = JStr ''Concert A''\<rparr>"
    by (simp add: demo_redeemed_def demo_issued_value redeem_ticket_def add_transaction_def)
  have a': "tickets demo_ledger ''no-such-ticket'' = None
            \<or> (\<exists>t. tickets demo_ledger ''no-such-ticket'' = Some t \<and> status t \<noteq> ''valid'')"
    using a by simp
  have b': "tickets demo_redeemed demo_uuid = None
            \<or> (\<exists>t. tickets demo_redeemed demo_uuid = Some t \<and> status t \<noteq> ''valid'')"
    using b by simp
  from invalid_ticket_rejected [OF a'] invalid_ticket_rejected [OF b'] a b
  show ?thesis by blast
qed

subsection \<open>C5: redeeming is terminal\<close>

text \<open>
  C5. After \<^verbatim>\<open>redeem_ticket(ticket_id)\<close> has returned \<^verbatim>\<open>True\<close>, and after any further calls
  (transfers, redemptions, issues, reads, mining) that return, \<^verbatim>\<open>transfer_ticket\<close> and
  \<^verbatim>\<open>redeem_ticket\<close> on that id return \<^verbatim>\<open>False\<close> and leave the ledger as it was, so no
  transaction is appended; with no calls in between, redeeming twice gives \<^verbatim>\<open>True\<close>, then
  \<^verbatim>\<open>False\<close>. The further calls are those in which \<^verbatim>\<open>uuid4()\<close> does not hand out the
  redeemed ticket's id again.
\<close>

theorem redeem_is_terminal:
  assumes "redeem_ticket s tid now = (s1, True)" and "run s1 cs = Some s2"
    and "tid \<notin> set (issued_ids cs)"
  shows "transfer_ticket s2 tid new_own now1 = (s2, False)
         \<and> redeem_ticket s2 tid now2 = (s2, False)"
proof -
  from assms(1) obtain t where "tickets s1 tid = Some t" "status t = ''redeemed''"
    by (auto simp: redeem_ticket_def add_transaction_def Let_def split: option.splits if_splits)
  from redeemed_run [OF this assms(2,3)] obtain t' where
    "tickets s2 tid = Some t'" "status t' = ''redeemed''" by blast
  then show ?thesis
    by (simp add: transfer_ticket_def redeem_ticket_def)
qed

theorem redeem_is_terminal_witness:
  "redeem_ticket demo_issued demo_uuid ''1700000003.0'' = (demo_redeemed, True)
   \<and> run demo_redeemed demo_later_calls = Some demo_later
   \<and> demo_uuid \<notin> set (issued_ids demo_later_calls)
   \<and> transfer_ticket demo_later demo_uuid ''Dave'' ''1700000007.0'' = (demo_later, False)
   \<and> redeem_ticket demo_later demo_uuid ''1700000008.0'' = (demo_later, False)"
proof -
  have r: "redeem_ticket demo_issued demo_uuid ''1700000003.0'' = (demo_redeemed, True)"
    by (simp add: demo_redeemed_def demo_issued_value redeem_ticket_def add_transaction_def)
  have t: "tickets demo_redeemed demo_uuid
       = Some \<lparr>owner = ''Alice'', status = ''redeemed'', event = JStr ''Concert A''\<rparr>"
    by (simp add: demo_redeemed_def demo_issued_value redeem_ticket_def add_transaction_def)
  have t': "tickets demo_later demo_uuid
       = Some \<lparr>owner = ''Alice'', status = ''redeemed'', event = JStr ''Concert A''\<rparr>"
    using t by (simp add: demo_later_def issue_ticket_def add_transaction_def demo_uuid_def)
  have run: "run demo_redeemed demo_later_calls = Some demo_later"
    using t t'
    by (simp add: demo_later_calls_def demo_later_def [symmetric]
                  transfer_ticket_def redeem_ticket_def)
  have fresh: "demo_uuid \<notin> set (issued_ids demo_later_calls)"
    by (simp add: demo_later_calls_def demo_uuid_def)
  from redeem_is_terminal [OF r run fresh] r run fresh show ?thesis by blast
qed

subsection \<open>C6: issuing a ticket\<close>

text \<open>
  C6. \<^verbatim>\<open>issue_ticket(owner, event)\<close> has no failing branch: it appends one \<^verbatim>\<open>issue\<close>
  transaction to the pending pool, puts \<^verbatim>\<open>{owner, status: "valid", event}\<close> into the ticket
  index under the new id, returns the id, and \<^verbatim>\<open>verify_ticket\<close> of the returned id, right
  after and before any mining, gives exactly that entry.
\<close>

theorem issue_then_verify:
  "fst (issue_ticket s own ev uuid now) =
     s\<lparr>pending_transactions := pending_transactions s @
          [\<lparr>tx_type = ''issue'', ticket_id = uuid, tx_owner = own, tx_event = ev,
            new_owner = None, tx_timestamp = now\<rparr>],
       tickets := (tickets s)(uuid \<mapsto> \<lparr>owner = own, status = ''valid'', event = ev\<rparr>)\<rparr>
   \<and> snd (issue_ticket s own ev uuid now) = uuid
   \<and> verify_ticket (fst (issue_ticket s own ev uuid now)) (snd (issue_ticket s own ev uuid now))
       = Some \<lparr>owner = own, status = ''valid'', event = ev\<rparr>"
  by (simp add: issue_ticket_def add_transaction_def TicketTransaction_def verify_ticket_def Let_def)

theorem issue_then_verify_witness:
  "snd (issue_ticket demo_ledger ''Alice'' (JStr ''Concert A'') demo_uuid ''1700000001.5'')
     = demo_uuid
   \<and> verify_ticket demo_issued demo_uuid
       = Some \<lparr>owner = ''Alice'', status = ''valid'', event = JStr ''Concert A''\<rparr>
   \<and> pending_transactions demo_issued = [demo_tx]"
proof -
  note t = issue_then_verify
             [of demo_ledger "''Alice''" "JStr ''Concert A''" demo_uuid "''1700000001.5''"]
  from t have s: "snd (issue_ticket demo_ledger ''Alice'' (JStr ''Concert A'') demo_uuid
                         ''1700000001.5'') = demo_uuid"
    by blast
  from t have "verify_ticket
       (fst (issue_ticket demo_ledger ''Alice'' (JStr ''Concert A'') demo_uuid ''1700000001.5''))
       (snd (issue_ticket demo_ledger ''Alice'' (JStr ''Concert A'') demo_uuid ''1700000001.5''))
     = Some \<lparr>owner = ''Alice'', status = ''valid'', event = JStr ''Concert A''\<rparr>"
    by blast
  then have v: "verify_ticket demo_issued demo_uuid
       = Some \<lparr>owner = ''Alice'', status = ''valid'', event = JStr ''Concert A''\<rparr>"
    unfolding s demo_issued_def .
  have p: "pending_transactions demo_issued = [demo_tx]"
    by (simp add: demo_issued_value)
  from s v p show ?thesis by blast
qed

subsection \<open>C7: mining an empty pool\<close>

text \<open>
  C7. With an empty pending pool \<^verbatim>\<open>mine\<close> returns \<^verbatim>\<open>None\<close>, raises nothing, and leaves the
  ledger, its chain included, as it was.
\<close>

theorem mine_empty_pending:
  "pending_transactions s = [] \<Longrightarrow> mine s now = Some (Inr (s, None))"
  by (simp add: mine_def)

theorem mine_empty_pending_witness:
  "pending_transactions demo_ledger = []
   \<and> mine demo_ledger ''1700000002.0'' = Some (Inr (demo_ledger, None))"
proof -
  have e: "pending_transactions demo_ledger = []"
    by (simp add: demo_ledger_value)
  from mine_empty_pending [OF e] e show ?thesis by blast
qed

subsection \<open>C8: the hash of a block\<close>

text \<open>
  C8. The hash of a block is the SHA-256 hex digest of its serialization. The serialization
  lists the five fields with their keys in sorted order (index, nonce, previous_hash,
  timestamp, transactions) and the transactions in the order of the list, each transaction
  with its six fields, keys sorted. It is a function of those field values only: two blocks
  that agree on the five fields have the same hash, whatever their stored \<^verbatim>\<open>hash\<close>.
\<close>

theorem compute_hash_canonical:
  \<open>compute_hash b = sha256_hexdigest (block_string b)
   \<and> block_string b =
       ''{"index": '' @ int_str (index b)
       @ '', "nonce": '' @ int_str (nonce b)
       @ '', "previous_hash": '' @ quote (previous_hash b)
       @ '', "timestamp": '' @ timestamp b
       @ '', "transactions": ['' @ join '', '' (map (\<lambda>tx. dumps (to_dict tx)) (transactions b))
       @ '']}''
   \<and> (\<forall>tx. dumps (to_dict tx) =
       ''{"event": '' @ dumps (tx_event tx)
       @ '', "new_owner": '' @ (case new_owner tx of None \<Rightarrow> ''null'' | Some n \<Rightarrow> quote n)
       @ '', "owner": '' @ quote (tx_owner tx)
       @ '', "ticket_id": '' @ quote (ticket_id tx)
       @ '', "timestamp": '' @ tx_timestamp tx
       @ '', "tx_type": '' @ quote (tx_type tx) @ ''}'')
   \<and> (\<forall>b' :: block. index b' = index b \<and> transactions b' = transactions b
             \<and> timestamp b' = timestamp b \<and> previous_hash b' = previous_hash b
             \<and> nonce b' = nonce b
         \<longrightarrow> compute_hash b' = compute_hash b)\<close>
proof (intro conjI allI impI)
  show "compute_hash b = sha256_hexdigest (block_string b)"
    by (simp add: compute_hash_def)
next
  fix b' :: block
  assume "index b' = index b \<and> transactions b' = transactions b
             \<and> timestamp b' = timestamp b \<and> previous_hash b' = previous_hash b
             \<and> nonce b' = nonce b"
  then show "compute_hash b' = compute_hash b"
    by (simp add: compute_hash_def block_string_def block_dict_def)
qed (rule block_string_form to_dict_string)+

text \<open>
  The sealed block of the example session and the block the search stopped at differ in the
  stored hash only. The serialization of the genesis block is written out.
\<close>

theorem compute_hash_canonical_witness:
  \<open>index demo_sealed_block = index (demo_unsealed\<lparr>nonce := 1\<rparr>)
   \<and> transactions demo_sealed_block = transactions (demo_unsealed\<lparr>nonce := 1\<rparr>)
   \<and> timestamp demo_sealed_block = timestamp (demo_unsealed\<lparr>nonce := 1\<rparr>)
   \<and> previous_hash demo_sealed_block = previous_hash (demo_unsealed\<lparr>nonce := 1\<rparr>)
   \<and> nonce demo_sealed_block = nonce (demo_unsealed\<lparr>nonce := 1\<rparr>)
   \<and> hash demo_sealed_block \<noteq> hash (demo_unsealed\<lparr>nonce := 1\<rparr>)
   \<and> compute_hash demo_sealed_block = compute_hash (demo_unsealed\<lparr>nonce := 1\<rparr>)
   \<and> block_string demo_genesis_block =
       ''{"index": 0, "nonce": 0, "previous_hash": "0", "timestamp": 1700000000.0, "transactions": []}''\<close>
proof -
  have same: "index demo_sealed_block = index (demo_unsealed\<lparr>nonce := 1\<rparr>)
     \<and> transactions demo_sealed_block = transactions (demo_unsealed\<lparr>nonce := 1\<rparr>)
     \<and> timestamp demo_sealed_block = timestamp (demo_unsealed\<lparr>nonce := 1\<rparr>)
     \<and> previous_hash demo_sealed_block = previous_hash (demo_unsealed\<lparr>nonce := 1\<rparr>)
     \<and> nonce demo_sealed_block = nonce (demo_unsealed\<lparr>nonce := 1\<rparr>)"
    by (simp add: demo_sealed_block_def demo_unsealed_def Block_def)
  have diff: "hash demo_sealed_block \<noteq> hash (demo_unsealed\<lparr>nonce := 1\<rparr>)"
    by (simp add: demo_sealed_block_def demo_unsealed_def Block_def)
  have eq: "compute_hash demo_sealed_block = compute_hash (demo_unsealed\<lparr>nonce := 1\<rparr>)"
    using compute_hash_canonical [of "demo_unsealed\<lparr>nonce := 1\<rparr>"] same by blast
  have str: \<open>block_string demo_genesis_block =
       ''{"index": 0, "nonce": 0, "previous_hash": "0", "timestamp": 1700000000.0, "transactions": []}''\<close>
    using compute_hash_canonical [of demo_genesis_block]
    by (simp add: demo_genesis_block_def int_str_def digits.simps quote_def esc_char_def)
  from same diff eq str show ?thesis by blast
qed

subsection \<open>C9: the proof-of-work search\<close>

text \<open>
  C9. \<^verbatim>\<open>proof_of_work\<close> sets the nonce to 0 and adds 1 to it until the hash of the block
  starts with \<open>difficulty\<close> zero characters. If some nonce from 0 on passes that test, it
  returns; the block is left with the least such nonce, and the returned hash is the hash
  of the block with that nonce.
\<close>

theorem proof_of_work_least_nonce:
  assumes "\<exists>n\<ge>0. startswith (compute_hash (b\<lparr>nonce := n\<rparr>)) (replicate difficulty CHR ''0'')"
  shows "\<exists>n\<ge>0. proof_of_work b = Some (b\<lparr>nonce := n\<rparr>, compute_hash (b\<lparr>nonce := n\<rparr>))
           \<and> startswith (compute_hash (b\<lparr>nonce := n\<rparr>)) (replicate difficulty CHR ''0'')
           \<and> (\<forall>m. 0 \<le> m \<and> m < n \<longrightarrow>
                 \<not> startswith (compute_hash (b\<lparr>nonce := m\<rparr>)) (replicate difficulty CHR ''0''))"
  using proof_of_work_least [of b] assms unfolding mined_ok_def zeros_def .

text \<open>
  The block of the example session: nonce 0 gives a hash that starts with \<^verbatim>\<open>14\<close>, nonce 1
  one that starts with \<^verbatim>\<open>00\<close>, so the search returns with nonce 1.
\<close>

theorem proof_of_work_least_nonce_witness:
  "startswith (compute_hash (demo_unsealed\<lparr>nonce := 1\<rparr>)) (replicate difficulty CHR ''0'')
   \<and> \<not> startswith (compute_hash (demo_unsealed\<lparr>nonce := 0\<rparr>)) (replicate difficulty CHR ''0'')
   \<and> proof_of_work demo_unsealed = Some (demo_unsealed\<lparr>nonce := 1\<rparr>, demo_block_hash)"
proof -
  have ok1: "startswith (compute_hash (demo_unsealed\<lparr>nonce := 1\<rparr>)) (replicate difficulty CHR ''0'')"
    using demo_nonce1 by (simp add: mined_ok_def zeros_def)
  have no0: "\<not> startswith (compute_hash (demo_unsealed\<lparr>nonce := 0\<rparr>)) (replicate difficulty CHR ''0'')"
    using demo_nonce0 by (simp add: mined_ok_def zeros_def)
  from ok1 have ex: "\<exists>n\<ge>0. startswith (compute_hash (demo_unsealed\<lparr>nonce := n\<rparr>))
                            (replicate difficulty CHR ''0'')"
    by (intro exI [of _ 1]) simp
  from proof_of_work_least_nonce [OF ex] obtain n where n0: "0 \<le> n"
    and pw: "proof_of_work demo_unsealed
               = Some (demo_unsealed\<lparr>nonce := n\<rparr>, compute_hash (demo_unsealed\<lparr>nonce := n\<rparr>))"
    and okn: "startswith (compute_hash (demo_unsealed\<lparr>nonce := n\<rparr>)) (replicate difficulty CHR ''0'')"
    and least: "\<forall>m. 0 \<le> m \<and> m < n \<longrightarrow>
         \<not> startswith (compute_hash (demo_unsealed\<lparr>nonce := m\<rparr>)) (replicate difficulty CHR ''0'')"
    by blast
  from least ok1 have "\<not> 1 < n" by auto
  moreover from okn no0 have "n \<noteq> 0" by auto
  ultimately have "n = 1" using n0 by linarith
  with pw demo_nonce1_hash ok1 no0 show ?thesis by simp
qed

subsection \<open>C10: the footprint of transfer and redeem\<close>

text \<open>
  C10. A \<^verbatim>\<open>transfer_ticket\<close> that returns \<^verbatim>\<open>True\<close> changes, in the ticket index, only the
  owner of that ticket's entry: the entry was valid and stays valid, its event and every
  other entry are as before, and the chain is as before; the ticket can then be
  transferred again or redeemed. A \<^verbatim>\<open>redeem_ticket\<close> that returns \<^verbatim>\<open>True\<close> changes only
  the status of that entry, to \<^verbatim>\<open>"redeemed"\<close>; its owner and event, every other entry and the
  chain are as before.
\<close>

theorem ticket_update_footprint:
  "(transfer_ticket s tid new_own now = (s1, True) \<longrightarrow>
      (\<exists>t. tickets s tid = Some t \<and> status t = ''valid''
           \<and> tickets s1 = (tickets s)(tid \<mapsto> t\<lparr>owner := new_own\<rparr>))
      \<and> chain s1 = chain s
      \<and> snd (transfer_ticket s1 tid own2 now2) = True
      \<and> snd (redeem_ticket s1 tid now3) = True)
   \<and> (redeem_ticket s tid now = (s2, True) \<longrightarrow>
      (\<exists>t. tickets s tid = Some t \<and> status t = ''valid''
           \<and> tickets s2 = (tickets s)(tid \<mapsto> t\<lparr>status := ''redeemed''\<rparr>))
      \<and> chain s2 = chain s)"
  by (auto simp: transfer_ticket_def redeem_ticket_def add_transaction_def Let_def
           split: option.splits if_splits)

theorem ticket_update_footprint_witness:
  "snd (transfer_ticket demo_issued demo_uuid ''Bob'' ''1700000003.0'') = True
   \<and> tickets (fst (transfer_ticket demo_issued demo_uuid ''Bob'' ''1700000003.0''))
       = (tickets demo_issued)
           (demo_uuid \<mapsto> \<lparr>owner = ''Bob'', status = ''valid'', event = JStr ''Concert A''\<rparr>)
   \<and> chain (fst (transfer_ticket demo_issued demo_uuid ''Bob'' ''1700000003.0''))
       = chain demo_issued
   \<and> snd (transfer_ticket (fst (transfer_ticket demo_issued demo_uuid ''Bob'' ''1700000003.0''))
                           demo_uuid ''Carol'' ''1700000004.0'') = True
   \<and> snd (redeem_ticket (fst (transfer_ticket demo_issued demo_uuid ''Bob'' ''1700000003.0''))
                         demo_uuid ''1700000005.0'') = True
   \<and> redeem_ticket demo_issued demo_uuid ''1700000003.0'' = (demo_redeemed, True)
   \<and> tickets demo_redeemed
       = (tickets demo_issued)
           (demo_uuid \<mapsto> \<lparr>owner = ''Alice'', status = ''redeemed'', event = JStr ''Concert A''\<rparr>)
   \<and> chain demo_redeemed = chain demo_issued"
proof -
  let ?s1 = "fst (transfer_ticket demo_issued demo_uuid ''Bob'' ''1700000003.0'')"
  have tk: "tickets demo_issued demo_uuid
       = Some \<lparr>owner = ''Alice'', status = ''valid'', event = JStr ''Concert A''\<rparr>"
    by (simp add: demo_issued_value)
  have sn: "snd (transfer_ticket demo_issued demo_uuid ''Bob'' ''1700000003.0'') = True"
    using tk by (simp add: transfer_ticket_def Let_def)
  then have tr: "transfer_ticket demo_issued demo_uuid ''Bob'' ''1700000003.0'' = (?s1, True)"
    by (simp add: prod_eq_iff)
  have rd: "redeem_ticket demo_issued demo_uuid ''1700000003.0'' = (demo_redeemed, True)"
    using tk by (simp add: demo_redeemed_def redeem_ticket_def Let_def)
  note f = ticket_update_footprint
         [of demo_issued demo_uuid "''Bob''" "''1700000003.0''" ?s1
             "''Carol''" "''1700000004.0''" "''1700000005.0''" demo_redeemed]
  from f tr have a:
    "\<exists>t. tickets demo_issued demo_uuid = Some t \<and> status t = ''valid''
         \<and> tickets ?s1 = (tickets demo_issued)(demo_uuid \<mapsto> t\<lparr>owner := ''Bob''\<rparr>)"
    and a1: "chain ?s1 = chain demo_issued"
    and a2: "snd (transfer_ticket ?s1 demo_uuid ''Carol'' ''1700000004.0'') = True"
    and a3: "snd (redeem_ticket ?s1 demo_uuid ''1700000005.0'') = True"
    by blast+
  from f rd have b:
    "\<exists>t. tickets demo_issued demo_uuid = Some t \<and> status t = ''valid''
         \<and> tickets demo_redeemed = (tickets demo_issued)(demo_uuid \<mapsto> t\<lparr>status := ''redeemed''\<rparr>)"
    and b1: "chain demo_redeemed = chain demo_issued"
    by blast+
  from a tk have a0: "tickets ?s1 = (tickets demo_issued)
           (demo_uuid \<mapsto> \<lparr>owner = ''Bob'', status = ''valid'', event = JStr ''Concert A''\<rparr>)"
    by auto
  from b tk have b0: "tickets demo_redeemed = (tickets demo_issued)
           (demo_uuid \<mapsto> \<lparr>owner = ''Alice'', status = ''redeemed'', event = JStr ''Concert A''\<rparr>)"
    by auto
  show ?thesis
    by (intro conjI) (rule sn a0 a1 a2 a3 rd b0 b1)+
qed

end
